theory Spec2Isabelle
  imports Main "HOL-Library.AList"
begin

section \<open>JavaScript values\<close>

text \<open>
  The criteria language of the helpers is duck-typed, so the helpers are modelled over a
  datatype of the JavaScript values they can receive. A string is a list of 8-bit
  characters; the payload of a number is never computed with and is kept as an integer.
  An object is an association list in property insertion order.
\<close>

datatype jsval =
    JUndefined
  | JNull
  | JBool bool
  | JNum int
  | JStr string
  | JArr "jsval list"
  | JObj "(string \<times> jsval) list"

text \<open>The \<open>typeof\<close> operator of the language.\<close>

fun typeof :: "jsval \<Rightarrow> string" where
  "typeof JUndefined = ''undefined''"
| "typeof JNull = ''object''"
| "typeof (JBool b) = ''boolean''"
| "typeof (JNum n) = ''number''"
| "typeof (JStr s) = ''string''"
| "typeof (JArr xs) = ''object''"
| "typeof (JObj kvs) = ''object''"

fun isArray :: "jsval \<Rightarrow> bool" where
  "isArray (JArr xs) = True"
| "isArray v = False"

text \<open>\<open>w.length\<close> and \<open>w[i]\<close> of an array; reading past the end gives \<open>undefined\<close>.\<close>

fun js_length :: "jsval \<Rightarrow> nat" where
  "js_length (JArr xs) = length xs"
| "js_length v = 0"

fun js_index :: "jsval \<Rightarrow> nat \<Rightarrow> jsval" where
  "js_index (JArr xs) i = (if i < length xs then xs ! i else JUndefined)"
| "js_index v i = JUndefined"

fun js_items :: "jsval \<Rightarrow> jsval list" where
  "js_items (JArr xs) = xs"
| "js_items v = []"

section \<open>Helpers of \<open>util\<close>\<close>

text \<open>
  Modelled from the spec: \<open>util.isObject\<close> and \<open>util.isString\<close> (the module \<open>util\<close> is
  imported by the helpers; its file is not among the sources). An object criteria is a
  "mapping column \<rightarrow> value", so \<open>isObject\<close> holds of plain objects only, and \<open>isString\<close>
  of strings.
\<close>

fun isObject :: "jsval \<Rightarrow> bool" where
  "isObject (JObj kvs) = True"
| "isObject v = False"

fun isString :: "jsval \<Rightarrow> bool" where
  "isString (JStr s) = True"
| "isString v = False"

text \<open>
  Modelled from the spec: \<open>util.mapObj\<close>, which applies a function to every value of an
  object ("for an Object, cast every value").
\<close>

definition mapObj :: "(string \<times> jsval) list \<Rightarrow> (jsval \<Rightarrow> jsval) \<Rightarrow> (string \<times> jsval) list" where
  "mapObj kvs f = map (\<lambda>(k, v). (k, f v)) kvs"

text \<open>A thrown \<open>Error\<close> carries its message.\<close>

datatype error = Error string

text \<open>
  Modelled from the spec: \<open>util.invariant\<close>, which raises an error with the given message
  when its condition is false and gives its first argument back otherwise.
\<close>

definition invariant :: "bool \<Rightarrow> string \<Rightarrow> 'a \<Rightarrow> error + 'a" where
  "invariant cond msg v = (if cond then Inr v else Inl (Error msg))"

section \<open>Criteria classification\<close>

definition isWhereTuple :: "jsval \<Rightarrow> bool" where
  "isWhereTuple wh \<longleftrightarrow>
     isArray wh \<and> (js_length wh = 2 \<or> js_length wh = 3) \<and> typeof (js_index wh 0) = ''string''"

definition isWhereMultiple :: "jsval \<Rightarrow> bool" where
  "isWhereMultiple wh \<longleftrightarrow>
     isArray wh \<and> list_all (\<lambda>item. isWhereTuple item \<or> isObject item) (js_items wh)"

definition isValidWhere :: "jsval \<Rightarrow> bool" where
  "isValidWhere wh \<longleftrightarrow> isWhereTuple wh \<or> isObject wh \<or> isWhereMultiple wh"

section \<open>Criteria normalisation\<close>

text \<open>
  In the two-element branch the key \<open>[where[0]]\<close> is a string, because \<open>isWhereTuple\<close>
  has checked it.
\<close>

fun normalizeCriteria :: "jsval \<Rightarrow> jsval" where
  "normalizeCriteria wh =
     (if isWhereTuple wh then
        (if js_length wh = 2 then
           (case js_index wh 0 of
              JStr c \<Rightarrow> JObj [(c, js_index wh 1)]
            | _ \<Rightarrow> wh)
         else wh)
      else if isWhereMultiple wh then
        (case wh of
           JArr items \<Rightarrow> JArr (map normalizeCriteria items)
         | _ \<Rightarrow> wh)
      else if isObject wh then wh
      else wh)"

declare normalizeCriteria.simps [simp del]

section \<open>The query builder\<close>

text \<open>
  The query builder is the library's; the helpers only call \<open>where\<close>, \<open>orderBy\<close> and
  \<open>orderByRaw\<close> on it. A builder is modelled as the sequence of clauses applied to it so
  far, each with the arguments of the call.
\<close>

datatype clause =
    Where "jsval list"
  | WhereObject "(string \<times> jsval) list"
  | OrderBy "jsval list"
  | OrderByRaw string

type_synonym builder = "clause list"

definition buildOrder :: "builder \<Rightarrow> jsval \<Rightarrow> builder" where
  "buildOrder partial order =
     (if isString order then
        (if order = JStr ''random'' then partial @ [OrderByRaw ''RANDOM()'']
         else partial @ [OrderBy [order]])
      else if isArray order then
        (if js_length order = 1 then partial @ [OrderBy [js_index order 0]]
         else if js_length order = 2 then partial @ [OrderBy [js_index order 0, js_index order 1]]
         else partial)
      else partial)"

text \<open>
  \<open>buildWhere\<close> takes \<open>castValue\<close> of the schema helpers as a parameter (its file is not
  among the sources). The tuple branch overwrites the last element of the array it was
  given, so what follows that branch sees the array with the cast value. A list is folded
  with \<open>inner\<close> set; an error raised for one clause ends the fold.
\<close>

definition whereMessage :: "jsval \<Rightarrow> string" where
  "whereMessage wh = ''invalid where clause type: '' @ [CHR 0x27] @ typeof wh @ [CHR 0x27]"

function buildWhere :: "(jsval \<Rightarrow> jsval) \<Rightarrow> builder \<Rightarrow> jsval \<Rightarrow> bool \<Rightarrow> error + builder" where
  "buildWhere castValue partial wh inner =
     (if wh = JUndefined then Inr partial
      else
        let i = js_length wh - 1;
            cast = (if isWhereTuple wh then (js_items wh)[i := castValue (js_index wh i)]
                    else js_items wh);
            wh' = (if isWhereTuple wh then JArr cast else wh)
        in
          if isWhereTuple wh \<and> length cast = 2 then Inr (partial @ [Where cast])
          else if isWhereTuple wh \<and> length cast = 3 then Inr (partial @ [Where cast])
          else if \<not> inner \<and> isWhereMultiple wh' then
            fold (\<lambda>clause acc.
                    case acc of
                      Inl e \<Rightarrow> Inl e
                    | Inr accumulator \<Rightarrow> buildWhere castValue accumulator clause True)
                 (js_items wh') (Inr partial)
          else if isObject wh' then
            (case wh' of
               JObj kvs \<Rightarrow> Inr (partial @ [WhereObject (mapObj kvs castValue)])
             | _ \<Rightarrow> Inr partial)
          else invariant False (whereMessage wh') partial)"
  by pat_completeness auto
termination
  by (relation "measure (\<lambda>(castValue, partial, wh, inner). if inner then 0 else 1)") auto

declare buildWhere.simps [simp del]

section \<open>Strings\<close>

text \<open>
  \<open>toLowerCase\<close> is modelled on ASCII text: the letters \<open>A\<close> to \<open>Z\<close> are mapped to
  \<open>a\<close> to \<open>z\<close> and every other character is kept. \<open>str_includes s p\<close> is \<open>s.includes(p)\<close>,
  the search for \<open>p\<close> as a contiguous part of \<open>s\<close>.
\<close>

definition lower_char :: "char \<Rightarrow> char" where
  "lower_char c =
     (case map_of (zip ''ABCDEFGHIJKLMNOPQRSTUVWXYZ'' ''abcdefghijklmnopqrstuvwxyz'') c of
        None \<Rightarrow> c
      | Some l \<Rightarrow> l)"

definition toLowerCase :: "string \<Rightarrow> string" where
  "toLowerCase s = map lower_char s"

fun startsWith :: "string \<Rightarrow> string \<Rightarrow> bool" where
  "startsWith s [] = True"
| "startsWith [] (p # ps) = False"
| "startsWith (c # cs) (p # ps) = (c = p \<and> startsWith cs ps)"

fun str_includes :: "string \<Rightarrow> string \<Rightarrow> bool" where
  "str_includes [] p = (p = [])"
| "str_includes (c # cs) p = (startsWith (c # cs) p \<or> str_includes cs p)"

section \<open>Parsing the engine's response\<close>

text \<open>
  The embedded engine answers \<open>exec\<close> with a list of result sets, each with its column
  names and its rows. Only the first is read. A record starts as the literal \<open>{}\<close> and is
  built by assigning \<open>line[columns[j]] = values[i][j]\<close> for each column in turn.
\<close>

record resultset =
  rs_columns :: "string list"
  rs_values :: "jsval list list"

text \<open>
  An assignment \<open>line[k] = v\<close> sets the own property \<open>k\<close> of the record, replacing the
  value of a property that is there and adding the property otherwise, for every name but
  one. For the name \<open>__proto__\<close>, when the record has no own property of that name, the
  property is looked up along the prototype chain. The literal starts with the prototype
  of all objects, where the name is an accessor: its setter makes an object or \<open>null\<close>
  the prototype of the record, does nothing for any other value, and adds no property in
  either case. Once the prototype is \<open>null\<close>, or an object with an own property of that
  name, the accessor is no longer reached and the assignment adds an own property as for
  any other name. So the record under construction is its prototype and its own
  properties, in the order in which they were added.
\<close>

datatype prototype = ObjectPrototype | NullPrototype | ValuePrototype jsval

fun reachesSetter :: "prototype \<Rightarrow> bool" where
  "reachesSetter ObjectPrototype = True"
| "reachesSetter NullPrototype = False"
| "reachesSetter (ValuePrototype (JObj kvs)) = (map_of kvs ''__proto__'' = None)"
| "reachesSetter (ValuePrototype v) = True"

definition assignProperty ::
  "string \<Rightarrow> jsval \<Rightarrow> prototype \<times> (string \<times> jsval) list \<Rightarrow> prototype \<times> (string \<times> jsval) list" where
  "assignProperty k v line =
     (case line of
        (proto, props) \<Rightarrow>
          if k = ''__proto__'' \<and> map_of props k = None \<and> reachesSetter proto then
            (case v of
               JNull \<Rightarrow> (NullPrototype, props)
             | JObj kvs \<Rightarrow> (ValuePrototype v, props)
             | JArr xs \<Rightarrow> (ValuePrototype v, props)
             | _ \<Rightarrow> (proto, props))
          else (proto, AList.update k v props))"

text \<open>The record that \<open>parseResponse\<close> pushes is given by its own properties.\<close>

definition parseLine :: "string list \<Rightarrow> jsval list \<Rightarrow> jsval" where
  "parseLine cols row =
     JObj (snd (fold (\<lambda>j line. assignProperty (cols ! j) (js_index (JArr row) j) line)
                  [0..<length cols] (ObjectPrototype, [])))"

definition parseResponse :: "resultset list \<Rightarrow> jsval list" where
  "parseResponse contents =
     (case contents of
        [] \<Rightarrow> []
      | r # rest \<Rightarrow> map (parseLine (rs_columns r)) (rs_values r))"

definition HAS_TABLE_SUBSTRING :: string where
  "HAS_TABLE_SUBSTRING =
     ''from sqlite_master where type = '' @ [CHR 0x27] @ ''table'' @ [CHR 0x27]"

text \<open>\<open>str.split(' ', 1)[0]\<close> is the text before the first space, the whole text if none.\<close>

definition getQueryAction :: "string \<Rightarrow> string" where
  "getQueryAction str = toLowerCase (takeWhile (\<lambda>c. c \<noteq> CHR '' '') str)"

section \<open>The registry and its collaborators\<close>

text \<open>
  Modelled from the spec: the class \<open>Model\<close> (its file is not among the sources). A model
  owns its table name, its schema and its options.
\<close>

record model =
  m_name :: string
  m_schema :: jsval
  m_options :: jsval

text \<open>
  The query objects the registry hands to \<open>runQuery\<close>: the three schema builders it
  calls, and any other query by its text.
\<close>

datatype query =
    HasTable string
  | CreateTable string jsval
  | DropTableIfExists string
  | Raw string

text \<open>
  An asynchronous call resolves with a value, rejects with an error, or never settles.
  Calls are modelled one at a time, each run until its promise settles; between
  \<open>acquire\<close> and \<open>release\<close> the embedded branch of \<open>runQuery\<close> has no \<open>await\<close>.
\<close>

datatype 'a outcome = Resolved 'a | Rejected error | Pending

text \<open>
  Modelled from the spec: the pool of the instance (\<open>pureConnect\<close> of the engine handler
  is not among the sources) is a pool of one handle, "a mutex in effect": \<open>acquire\<close> waits
  while the handle is held. \<open>pool_held\<close> tells whether the handle is acquired, and \<open>db\<close>
  is the database behind it (in native mode, the database of the driver).
\<close>

text \<open>
  The state of a \<open>Trilogy\<close> instance. \<open>verbose\<close> is \<open>None\<close> when no function is
  configured; a callback is modelled by what a call of it does to its caller: it throws
  an error or returns. \<open>definitions\<close> is the \<open>Map\<close> of models in insertion order.
  \<open>issued\<close> records every statement handed to the engine or the driver.
\<close>

record 'db trilogy =
  isNative :: bool
  verbose :: "(string \<Rightarrow> error option) option"
  definitions :: "(string \<times> model) list"
  pool_held :: bool
  db :: 'db
  issued :: "string list"

text \<open>
  What the code calls and the sources do not contain is a parameter: the query builder
  (\<open>toString\<close> of a query, and awaiting a query in native mode), the engine's handle
  (\<open>exec\<close>, \<open>run\<close>, \<open>getRowsModified\<close>), \<open>writeDatabase\<close>, \<open>_callHook\<close> of a model for
  the on-query hook, the constructor of \<open>Model\<close>, \<open>types.validate\<close> of the model options,
  \<open>toKnexSchema\<close> and \<open>createTimestampTrigger\<close>. Each can throw where it is written with
  an error result.
\<close>

record 'db env =
  toString :: "query \<Rightarrow> string"
  awaitQuery :: "query \<Rightarrow> 'db \<Rightarrow> (error + jsval) \<times> 'db"
  exec :: "string \<Rightarrow> 'db \<Rightarrow> (error + resultset list) \<times> 'db"
  run :: "string \<Rightarrow> 'db \<Rightarrow> error option \<times> 'db"
  getRowsModified :: "'db \<Rightarrow> int"
  writeDatabase :: "'db \<Rightarrow> error option"
  callHook_OnQuery :: "model \<Rightarrow> string \<Rightarrow> error option"
  newModel :: "string \<Rightarrow> jsval \<Rightarrow> jsval \<Rightarrow> error + model"
  validate :: "jsval \<Rightarrow> error + jsval"
  toKnexSchema :: "model \<Rightarrow> jsval \<Rightarrow> jsval"
  createTimestampTrigger :: "model \<Rightarrow> 'db trilogy \<Rightarrow> 'db trilogy"

record queryOptions =
  needResponse :: bool
  opt_model :: "model option"

section \<open>The execution router\<close>

text \<open>Truthiness of a value and its \<open>length\<close> property.\<close>

fun truthy :: "jsval \<Rightarrow> bool" where
  "truthy JUndefined = False"
| "truthy JNull = False"
| "truthy (JBool b) = b"
| "truthy (JNum n) = (n \<noteq> 0)"
| "truthy (JStr s) = (s \<noteq> [])"
| "truthy (JArr xs) = True"
| "truthy (JObj kvs) = True"

fun length_of :: "jsval \<Rightarrow> jsval" where
  "length_of (JArr xs) = JNum (int (length xs))"
| "length_of (JStr s) = JNum (int (length s))"
| "length_of (JObj kvs) = (case map_of kvs ''length'' of Some v \<Rightarrow> v | None \<Rightarrow> JUndefined)"
| "length_of v = JUndefined"

text \<open>
  Modelled from the spec: \<open>util.isNumber\<close>. The native result is "the raw count/row-array";
  the test tells the count from the array.
\<close>

fun isNumber :: "jsval \<Rightarrow> bool" where
  "isNumber (JNum n) = True"
| "isNumber v = False"

text \<open>
  Awaiting a query in native mode hands it to the driver. The native branch of
  \<open>runQuery\<close> returns the query itself when a response is needed, which resolves the
  promise of the asynchronous function with the result of the query, as awaiting it does.
\<close>

definition awaitNative ::
  "'db env \<Rightarrow> 'db trilogy \<Rightarrow> query \<Rightarrow> jsval outcome \<times> 'db trilogy" where
  "awaitNative env instance query =
     (case awaitQuery env query (db instance) of
        (r, db') \<Rightarrow>
          let instance' = instance\<lparr>db := db', issued := issued instance @ [toString env query]\<rparr>
          in case r of
               Inl e \<Rightarrow> (Rejected e, instance')
             | Inr res \<Rightarrow> (Resolved res, instance'))"

definition runQuery_native ::
  "'db env \<Rightarrow> 'db trilogy \<Rightarrow> query \<Rightarrow> queryOptions \<Rightarrow> jsval outcome \<times> 'db trilogy" where
  "runQuery_native env instance query options =
     (if needResponse options then awaitNative env instance query
      else
        case awaitNative env instance query of
          (Resolved res, instance') \<Rightarrow>
            if isNumber res then (Resolved res, instance')
            else (Resolved (if truthy res then length_of res else JNum 0), instance')
        | (Rejected e, instance') \<Rightarrow> (Rejected e, instance')
        | (Pending, instance') \<Rightarrow> (Pending, instance'))"

text \<open>
  The embedded branch, from \<open>acquire\<close> to \<open>release\<close>. While the handle is held,
  \<open>acquire\<close> does not resolve. An error thrown by \<open>exec\<close>, \<open>run\<close> or \<open>writeDatabase\<close>
  leaves the function at once.
\<close>

definition runQuery_embedded ::
  "'db env \<Rightarrow> 'db trilogy \<Rightarrow> string \<Rightarrow> string \<Rightarrow> queryOptions \<Rightarrow> jsval outcome \<times> 'db trilogy" where
  "runQuery_embedded env instance asString action options =
     (if pool_held instance then (Pending, instance)
      else
        let acquired = instance\<lparr>pool_held := True, issued := issued instance @ [asString]\<rparr>
        in
          case (if needResponse options then
                  (case exec env asString (db acquired) of
                     (Inl e, db') \<Rightarrow> (Inl e, db')
                   | (Inr contents, db') \<Rightarrow>
                       let response = parseResponse contents
                       in if str_includes (toLowerCase asString) HAS_TABLE_SUBSTRING
                          then (Inr (JBool (response \<noteq> [])), db')
                          else (Inr (JArr response), db'))
                else
                  (case run env asString (db acquired) of
                     (Some e, db') \<Rightarrow> (Inl e, db')
                   | (None, db') \<Rightarrow>
                       if action \<in> set [''insert'', ''update'', ''delete'']
                       then (Inr (JNum (getRowsModified env db')), db')
                       else (Inr JUndefined, db')))
          of
            (Inl e, db') \<Rightarrow> (Rejected e, acquired\<lparr>db := db'\<rparr>)
          | (Inr response, db') \<Rightarrow>
              (case writeDatabase env db' of
                 Some e \<Rightarrow> (Rejected e, acquired\<lparr>db := db'\<rparr>)
               | None \<Rightarrow> (Resolved response, acquired\<lparr>db := db', pool_held := False\<rparr>)))"

text \<open>
  The two callbacks that run before the query: \<open>instance.verbose\<close>, called when it is a
  function, and the on-query hook of the model in the options, when there is one. Each
  gives the error that leaves the call, if any.
\<close>

definition callVerbose :: "'db trilogy \<Rightarrow> string \<Rightarrow> error option" where
  "callVerbose instance asString =
     (case verbose instance of None \<Rightarrow> None | Some f \<Rightarrow> f asString)"

definition callOnQuery :: "'db env \<Rightarrow> queryOptions \<Rightarrow> string \<Rightarrow> error option" where
  "callOnQuery env options asString =
     (case opt_model options of None \<Rightarrow> None | Some m \<Rightarrow> callHook_OnQuery env m asString)"

definition runQuery ::
  "'db env \<Rightarrow> 'db trilogy \<Rightarrow> query \<Rightarrow> queryOptions \<Rightarrow> jsval outcome \<times> 'db trilogy" where
  "runQuery env instance query options =
     (let asString = toString env query;
          action = getQueryAction asString
      in
        case callVerbose instance asString of
          Some e \<Rightarrow> (Rejected e, instance)
        | None \<Rightarrow>
            (case callOnQuery env options asString of
               Some e \<Rightarrow> (Rejected e, instance)
             | None \<Rightarrow>
                 if isNative instance then runQuery_native env instance query options
                 else runQuery_embedded env instance asString action options))"

section \<open>The registry\<close>

text \<open>
  \<open>model\<close> registers the new model before it looks at the database. The table is
  created when the existence check answers with a falsy value. The promise of
  \<open>createTimestampTrigger\<close> is not awaited.
\<close>

definition model ::
  "'db env \<Rightarrow> 'db trilogy \<Rightarrow> string \<Rightarrow> jsval \<Rightarrow> jsval \<Rightarrow> model outcome \<times> 'db trilogy" where
  "model env this name schema options =
     (case map_of (definitions this) name of
        Some existing \<Rightarrow> (Resolved existing, this)
      | None \<Rightarrow>
          (case newModel env name schema options of
             Inl e \<Rightarrow> (Rejected e, this)
           | Inr m \<Rightarrow>
               let this1 = this\<lparr>definitions := AList.update name m (definitions this)\<rparr>
               in case validate env options of
                    Inl e \<Rightarrow> (Rejected e, this1)
                  | Inr validated \<Rightarrow>
                      let opts = toKnexSchema env m validated;
                          check = HasTable name;
                          query = CreateTable name opts;
                          none = \<lparr>needResponse = False, opt_model = None\<rparr>
                      in
                        case (if isNative this1
                              then awaitNative env this1 check
                              else runQuery env this1 check (none\<lparr>needResponse := True\<rparr>)) of
                          (Rejected e, this2) \<Rightarrow> (Rejected e, this2)
                        | (Pending, this2) \<Rightarrow> (Pending, this2)
                        | (Resolved found, this2) \<Rightarrow>
                            if truthy found
                            then (Resolved m, createTimestampTrigger env m this2)
                            else
                              (case (if isNative this2
                                     then awaitNative env this2 query
                                     else runQuery env this2 query none) of
                                 (Rejected e, this3) \<Rightarrow> (Rejected e, this3)
                               | (Pending, this3) \<Rightarrow> (Pending, this3)
                               | (Resolved r, this3) \<Rightarrow>
                                   (Resolved m, createTimestampTrigger env m this3))))"

definition hasModel ::
  "'db env \<Rightarrow> 'db trilogy \<Rightarrow> string \<Rightarrow> jsval outcome \<times> 'db trilogy" where
  "hasModel env this name =
     (if map_of (definitions this) name = None then (Resolved (JBool False), this)
      else runQuery env this (HasTable name) \<lparr>needResponse = True, opt_model = None\<rparr>)"

definition dropModel ::
  "'db env \<Rightarrow> 'db trilogy \<Rightarrow> string \<Rightarrow> bool outcome \<times> 'db trilogy" where
  "dropModel env this name =
     (if map_of (definitions this) name = None then (Resolved False, this)
      else
        case runQuery env this (DropTableIfExists name) \<lparr>needResponse = True, opt_model = None\<rparr> of
          (Rejected e, this') \<Rightarrow> (Rejected e, this')
        | (Pending, this') \<Rightarrow> (Pending, this')
        | (Resolved r, this') \<Rightarrow>
            (Resolved True, this'\<lparr>definitions := AList.delete name (definitions this')\<rparr>))"

section \<open>A sample environment\<close>

text \<open>
  A small environment on which the definitions can be run: the database is the list of
  its table names. The existence check is rendered with the text the query builder gives
  it for this engine; \<open>exec\<close> answers it with one row when the table exists and with no
  result set otherwise, rejects the malformed statement \<open>selec\<close>, and answers every other
  statement with the list of the tables.
\<close>

definition sample_toString :: "query \<Rightarrow> string" where
  "sample_toString q =
     (case q of
        HasTable n \<Rightarrow>
          ''select * from sqlite_master where type = '' @ [CHR 0x27] @ ''table'' @ [CHR 0x27] @
          '' and name = '' @ [CHR 0x27] @ n @ [CHR 0x27]
      | CreateTable n opts \<Rightarrow> ''create table '' @ n
      | DropTableIfExists n \<Rightarrow> ''drop table if exists '' @ n
      | Raw text \<Rightarrow> text)"

definition sample_rows :: "string list \<Rightarrow> resultset list" where
  "sample_rows names =
     (if names = [] then []
      else [\<lparr>rs_columns = [''type'', ''name''],
             rs_values = map (\<lambda>n. [JStr ''table'', JStr n]) names\<rparr>])"

definition sample_exec :: "string \<Rightarrow> string list \<Rightarrow> (error + resultset list) \<times> string list" where
  "sample_exec sql tables =
     (if sql = ''selec'' then (Inl (Error ''syntax error''), tables)
      else if startsWith sql ''drop table if exists ''
      then (Inr [], filter (\<lambda>n. sql \<noteq> sample_toString (DropTableIfExists n)) tables)
      else if startsWith sql ''select * ''
      then (Inr (sample_rows (filter (\<lambda>n. sql = sample_toString (HasTable n)) tables)), tables)
      else (Inr (sample_rows tables), tables))"

definition sample_run :: "string \<Rightarrow> string list \<Rightarrow> error option \<times> string list" where
  "sample_run sql tables =
     (if sql = ''selec'' then (Some (Error ''syntax error''), tables)
      else if startsWith sql ''create table '' then (None, tables @ [drop 13 sql])
      else (None, tables))"

definition sample_env :: "string list env" where
  "sample_env =
     \<lparr>toString = sample_toString,
      awaitQuery = (\<lambda>q tables. (Inr (JNum 0), tables)),
      exec = sample_exec,
      run = sample_run,
      getRowsModified = (\<lambda>tables. 1),
      writeDatabase = (\<lambda>tables. None),
      callHook_OnQuery = (\<lambda>m text. None),
      newModel = (\<lambda>n s opts. Inr \<lparr>m_name = n, m_schema = s, m_options = opts\<rparr>),
      validate = (\<lambda>opts. Inr opts),
      toKnexSchema = (\<lambda>m opts. m_schema m),
      createTimestampTrigger = (\<lambda>m this. this)\<rparr>"

definition sample_model :: model where
  "sample_model = \<lparr>m_name = ''one'', m_schema = JObj [(''name'', JStr ''string'')], m_options = JObj []\<rparr>"

definition sample_instance :: "string list trilogy" where
  "sample_instance =
     \<lparr>isNative = False, verbose = None, definitions = [(''one'', sample_model)],
      pool_held = False, db = [''one'', ''two''], issued = []\<rparr>"

text \<open>A logging callback that throws, and an instance configured with it.\<close>

definition failing_logger :: "string \<Rightarrow> error option" where
  "failing_logger text = Some (Error ''logger failed'')"

definition logging_instance :: "string list trilogy" where
  "logging_instance = sample_instance\<lparr>verbose := Some failing_logger\<rparr>"

definition read_options :: queryOptions where
  "read_options = \<lparr>needResponse = True, opt_model = None\<rparr>"

definition write_options :: queryOptions where
  "write_options = \<lparr>needResponse = False, opt_model = None\<rparr>"

text \<open>
  An environment whose on-query hook rejects, options that name a model, a result set
  with a column named \<open>__proto__\<close>, and a query of a user's own whose text holds the
  marker of the existence check.
\<close>

definition hook_env :: "string list env" where
  "hook_env = sample_env\<lparr>callHook_OnQuery := (\<lambda>m text. Some (Error ''hook failed''))\<rparr>"

definition hooked_options :: queryOptions where
  "hooked_options = \<lparr>needResponse = True, opt_model = Some sample_model\<rparr>"


definition marker_query :: query where
  "marker_query =
     Raw (''SELECT name FROM sqlite_master WHERE type = '' @ [CHR 0x27] @ ''table'' @ [CHR 0x27] @
          '' ORDER BY name'')"

section \<open>Properties of criteria normalisation\<close>

lemma typeof_string_iff: "typeof v = ''string'' \<longleftrightarrow> (\<exists>s. v = JStr s)"
  by (cases v) auto

lemma isWhereTuple_iff:
  "isWhereTuple wh \<longleftrightarrow> (\<exists>c v. wh = JArr [JStr c, v]) \<or> (\<exists>c opr v. wh = JArr [JStr c, opr, v])"
proof (cases wh)
  case (JArr xs)
  show ?thesis
  proof
    assume t: "isWhereTuple wh"
    then have len: "length xs = 2 \<or> length xs = 3" and "typeof (js_index wh 0) = ''string''"
      using JArr by (auto simp: isWhereTuple_def)
    then obtain c where c: "xs ! 0 = JStr c"
      using JArr by (auto simp: typeof_string_iff split: if_splits)
    from len show "(\<exists>c v. wh = JArr [JStr c, v]) \<or> (\<exists>c opr v. wh = JArr [JStr c, opr, v])"
    proof
      assume "length xs = 2"
      then obtain a b where "xs = [a, b]"
        by (cases xs; cases "tl xs"; cases "tl (tl xs)") auto
      with c JArr show ?thesis by auto
    next
      assume "length xs = 3"
      then obtain a b d where "xs = [a, b, d]"
        by (cases xs; cases "tl xs"; cases "tl (tl xs)"; cases "tl (tl (tl xs))") auto
      with c JArr show ?thesis by auto
    qed
  next
    assume "(\<exists>c v. wh = JArr [JStr c, v]) \<or> (\<exists>c opr v. wh = JArr [JStr c, opr, v])"
    then show "isWhereTuple wh" by (auto simp: isWhereTuple_def)
  qed
qed (auto simp: isWhereTuple_def)

lemma normalize_tuple2: "normalizeCriteria (JArr [JStr c, v]) = JObj [(c, v)]"
  by (simp add: normalizeCriteria.simps isWhereTuple_def)

lemma normalize_tuple3: "normalizeCriteria (JArr [JStr c, opr, v]) = JArr [JStr c, opr, v]"
  by (simp add: normalizeCriteria.simps isWhereTuple_def)

lemma normalize_list:
  "\<not> isWhereTuple (JArr items) \<Longrightarrow> isWhereMultiple (JArr items) \<Longrightarrow>
   normalizeCriteria (JArr items) = JArr (map normalizeCriteria items)"
  by (simp add: normalizeCriteria.simps)

lemma normalize_other:
  "\<not> isWhereTuple wh \<Longrightarrow> \<not> isWhereMultiple wh \<Longrightarrow> normalizeCriteria wh = wh"
  by (simp add: normalizeCriteria.simps)

lemma normalize_not_array: "\<not> isArray wh \<Longrightarrow> normalizeCriteria wh = wh"
  by (rule normalize_other) (auto simp: isWhereTuple_def isWhereMultiple_def)

lemma normalize_JStr_D: "normalizeCriteria x = JStr s \<Longrightarrow> x = JStr s"
proof (cases "isWhereTuple x")
  case True
  then show "normalizeCriteria x = JStr s \<Longrightarrow> x = JStr s"
    by (auto simp: isWhereTuple_iff normalize_tuple2 normalize_tuple3)
next
  case nt: False
  show "normalizeCriteria x = JStr s \<Longrightarrow> x = JStr s"
  proof (cases "isWhereMultiple x")
    case True
    then obtain items where "x = JArr items" by (cases x) (auto simp: isWhereMultiple_def)
    with nt True show "normalizeCriteria x = JStr s \<Longrightarrow> x = JStr s"
      by (simp add: normalize_list)
  next
    case False
    with nt show "normalizeCriteria x = JStr s \<Longrightarrow> x = JStr s"
      by (simp add: normalize_other)
  qed
qed

lemma normalize_list_not_tuple:
  assumes "\<not> isWhereTuple (JArr items)"
  shows "\<not> isWhereTuple (JArr (map normalizeCriteria items))"
proof
  assume "isWhereTuple (JArr (map normalizeCriteria items))"
  then have len: "length items = 2 \<or> length items = 3"
    and s: "typeof (normalizeCriteria (items ! 0)) = ''string''"
    by (auto simp: isWhereTuple_def split: if_splits)
  from s obtain c where "normalizeCriteria (items ! 0) = JStr c"
    by (auto simp: typeof_string_iff)
  then have "items ! 0 = JStr c" by (rule normalize_JStr_D)
  with len have "isWhereTuple (JArr items)" by (auto simp: isWhereTuple_def)
  with assms show False by simp
qed

text \<open>
  C1. Normalising twice gives the same criteria as normalising once. It holds of every
  value, so in particular of every valid criteria shape: a tuple, an object, or a list of
  either.
\<close>

theorem normalizeCriteria_idempotent:
  "normalizeCriteria (normalizeCriteria c) = normalizeCriteria c"
proof (induction c rule: normalizeCriteria.induct)
  case (1 wh)
  show ?case
  proof (cases "isWhereTuple wh")
    case True
    then show ?thesis
      by (auto simp: isWhereTuple_iff normalize_tuple2 normalize_tuple3 normalize_not_array)
  next
    case nt: False
    show ?thesis
    proof (cases "isWhereMultiple wh")
      case mult: True
      then obtain items where wh: "wh = JArr items"
        by (cases wh) (auto simp: isWhereMultiple_def)
      have ih: "\<And>x. x \<in> set items \<Longrightarrow> normalizeCriteria (normalizeCriteria x) = normalizeCriteria x"
        using "1.IH" [OF nt mult wh] .
      have n1: "normalizeCriteria wh = JArr (map normalizeCriteria items)"
        using nt mult wh by (simp add: normalize_list)
      have nt': "\<not> isWhereTuple (JArr (map normalizeCriteria items))"
        using nt wh by (simp add: normalize_list_not_tuple)
      show ?thesis
      proof (cases "isWhereMultiple (JArr (map normalizeCriteria items))")
        case True
        with nt' have "normalizeCriteria (JArr (map normalizeCriteria items)) =
            JArr (map normalizeCriteria (map normalizeCriteria items))"
          by (rule normalize_list)
        also have "map normalizeCriteria (map normalizeCriteria items) = map normalizeCriteria items"
          using ih by simp
        finally show ?thesis using n1 by simp
      next
        case False
        with nt' show ?thesis using n1 by (simp add: normalize_other)
      qed
    next
      case False
      with nt show ?thesis by (simp add: normalize_other)
    qed
  qed
qed

theorem normalizeCriteria_idempotent_witness:
  "normalizeCriteria (normalizeCriteria
      (JArr [JArr [JStr ''a'', JNum 1], JObj [(''b'', JNum 2)], JArr [JStr ''c'', JStr ''<'', JNum 3]])) =
   JArr [JObj [(''a'', JNum 1)], JObj [(''b'', JNum 2)], JArr [JStr ''c'', JStr ''<'', JNum 3]]"
proof -
  have "normalizeCriteria
      (JArr [JArr [JStr ''a'', JNum 1], JObj [(''b'', JNum 2)], JArr [JStr ''c'', JStr ''<'', JNum 3]]) =
    JArr [JObj [(''a'', JNum 1)], JObj [(''b'', JNum 2)], JArr [JStr ''c'', JStr ''<'', JNum 3]]"
    by (simp add: normalizeCriteria.simps isWhereTuple_def isWhereMultiple_def)
  with normalizeCriteria_idempotent
    [of "JArr [JArr [JStr ''a'', JNum 1], JObj [(''b'', JNum 2)], JArr [JStr ''c'', JStr ''<'', JNum 3]]"]
  show ?thesis by simp
qed

text \<open>
  C4. A two-element tuple becomes the one-entry object, a three-element tuple is returned
  as it is, and a list (an array that is not tuple-shaped, all of whose items are tuples
  or objects) is normalised item by item in order. An array of length 2 or 3 whose first
  element is a string takes the tuple branch whatever its other elements are: they are
  not normalised.
\<close>

theorem normalizeCriteria_shapes:
  "normalizeCriteria (JArr [JStr c, v]) = JObj [(c, v)] \<and>
   normalizeCriteria (JArr [JStr c, opr, v]) = JArr [JStr c, opr, v] \<and>
   (\<not> isWhereTuple (JArr items) \<and> isWhereMultiple (JArr items) \<longrightarrow>
      normalizeCriteria (JArr items) = JArr (map normalizeCriteria items)) \<and>
   (isArray wh \<and> (js_length wh = 2 \<or> js_length wh = 3) \<and> typeof (js_index wh 0) = ''string'' \<longrightarrow>
      (\<exists>col. js_index wh 0 = JStr col \<and>
         normalizeCriteria wh =
           (if js_length wh = 2 then JObj [(col, js_index wh 1)] else wh)))"
proof -
  have "\<exists>col. js_index wh 0 = JStr col \<and>
         normalizeCriteria wh = (if js_length wh = 2 then JObj [(col, js_index wh 1)] else wh)"
    if "isWhereTuple wh"
    using that by (auto simp: isWhereTuple_iff normalize_tuple2 normalize_tuple3)
  then show ?thesis
    by (simp add: normalize_tuple2 normalize_tuple3 normalize_list isWhereTuple_def)
qed

theorem normalizeCriteria_shapes_witness:
  "\<not> isWhereTuple (JArr [JArr [JStr ''a'', JNum 1], JObj [(''b'', JNum 2)]]) \<and>
   isWhereMultiple (JArr [JArr [JStr ''a'', JNum 1], JObj [(''b'', JNum 2)]]) \<and>
   normalizeCriteria (JArr [JArr [JStr ''a'', JNum 1], JObj [(''b'', JNum 2)]]) =
     JArr [JObj [(''a'', JNum 1)], JObj [(''b'', JNum 2)]] \<and>
   isArray (JArr [JStr ''a'', JStr ''='', JArr [JStr ''b'', JNum 1]]) \<and>
   js_length (JArr [JStr ''a'', JStr ''='', JArr [JStr ''b'', JNum 1]]) = 3 \<and>
   typeof (js_index (JArr [JStr ''a'', JStr ''='', JArr [JStr ''b'', JNum 1]]) 0) = ''string'' \<and>
   normalizeCriteria (JArr [JStr ''a'', JStr ''='', JArr [JStr ''b'', JNum 1]]) =
     JArr [JStr ''a'', JStr ''='', JArr [JStr ''b'', JNum 1]]"
proof -
  have h: "\<not> isWhereTuple (JArr [JArr [JStr ''a'', JNum 1], JObj [(''b'', JNum 2)]]) \<and>
      isWhereMultiple (JArr [JArr [JStr ''a'', JNum 1], JObj [(''b'', JNum 2)]])"
    by (simp add: isWhereTuple_def isWhereMultiple_def)
  from h normalizeCriteria_shapes
    [of "''a''" "JNum 1" "JStr ''=''" "[JArr [JStr ''a'', JNum 1], JObj [(''b'', JNum 2)]]"
        "JArr [JStr ''a'', JStr ''='', JArr [JStr ''b'', JNum 1]]"]
  show ?thesis by (simp add: normalize_tuple2 normalize_not_array)
qed

section \<open>Properties of the query assembler\<close>

lemma buildWhere_undefined: "buildWhere cv p JUndefined inner = Inr p"
  by (simp add: buildWhere.simps)

lemma buildWhere_invalid:
  assumes "wh \<noteq> JUndefined" and "\<not> isValidWhere wh"
  shows "buildWhere cv p wh inner = Inl (Error (whereMessage wh))"
  using assms by (simp add: buildWhere.simps isValidWhere_def invariant_def Let_def)

text \<open>
  C5. With \<open>undefined\<close> criteria \<open>buildWhere\<close> returns the builder it was given. A value
  that is defined and is neither a tuple, nor an object, nor a list of tuples or objects
  makes it raise the error whose message names \<open>typeof\<close> of the value; no builder is
  returned.
\<close>

theorem buildWhere_undefined_or_invalid:
  "buildWhere castValue partial JUndefined inner = Inr partial \<and>
   (wh \<noteq> JUndefined \<and> \<not> isWhereTuple wh \<and> \<not> isObject wh \<and> \<not> isWhereMultiple wh \<longrightarrow>
      buildWhere castValue partial wh inner =
        Inl (Error (''invalid where clause type: '' @ [CHR 0x27] @ typeof wh @ [CHR 0x27])))"
  by (simp add: buildWhere_undefined buildWhere_invalid isValidWhere_def whereMessage_def)

theorem buildWhere_undefined_or_invalid_witness:
  "JNum 5 \<noteq> JUndefined \<and> \<not> isWhereTuple (JNum 5) \<and> \<not> isObject (JNum 5) \<and>
   \<not> isWhereMultiple (JNum 5) \<and>
   buildWhere (\<lambda>v. v) [] (JNum 5) False =
     Inl (Error (''invalid where clause type: '' @ [CHR 0x27] @ ''number'' @ [CHR 0x27]))"
proof -
  have h: "JNum 5 \<noteq> JUndefined \<and> \<not> isWhereTuple (JNum 5) \<and> \<not> isObject (JNum 5) \<and>
      \<not> isWhereMultiple (JNum 5)"
    by (simp add: isWhereTuple_def isWhereMultiple_def)
  from buildWhere_undefined_or_invalid [of "\<lambda>v. v" "[]" False "JNum 5"] h
  show ?thesis by simp
qed

text \<open>
  C7. The string \<open>random\<close> becomes the raw ordering \<open>RANDOM()\<close>, any other string an
  ordering by that column, a one- or two-element array an ordering by its elements; every
  other value (an array of another length, or a value that is neither a string nor an
  array) leaves the builder as it was. \<open>buildOrder\<close> has no error result.
\<close>

theorem buildOrder_shapes:
  "buildOrder partial (JStr ''random'') = partial @ [OrderByRaw ''RANDOM()''] \<and>
   (col \<noteq> ''random'' \<longrightarrow> buildOrder partial (JStr col) = partial @ [OrderBy [JStr col]]) \<and>
   buildOrder partial (JArr [c]) = partial @ [OrderBy [c]] \<and>
   buildOrder partial (JArr [c, dir]) = partial @ [OrderBy [c, dir]] \<and>
   (\<not> isString order \<and> \<not> (isArray order \<and> (js_length order = 1 \<or> js_length order = 2)) \<longrightarrow>
      buildOrder partial order = partial)"
  by (simp add: buildOrder_def)

theorem buildOrder_shapes_witness:
  "''name'' \<noteq> ''random'' \<and> buildOrder [] (JStr ''name'') = [OrderBy [JStr ''name'']] \<and>
   buildOrder [] (JArr []) = [] \<and>
   buildOrder [] (JArr [JStr ''a'', JStr ''desc'', JStr ''x'']) = [] \<and>
   buildOrder [] (JNum 3) = []"
  using buildOrder_shapes [of "[]" "''name''" JNull JNull "JArr []"]
    buildOrder_shapes [of "[]" "''name''" JNull JNull "JArr [JStr ''a'', JStr ''desc'', JStr ''x'']"]
    buildOrder_shapes [of "[]" "''name''" JNull JNull "JNum 3"]
  by simp

section \<open>Properties of the execution router\<close>

lemmas sample_defs =
  sample_env_def sample_instance_def read_options_def write_options_def sample_toString_def
  sample_exec_def sample_run_def sample_rows_def sample_model_def logging_instance_def
  failing_logger_def callVerbose_def callOnQuery_def hook_env_def hooked_options_def

lemma runQuery_verbose_throws:
  "callVerbose instance (toString env q) = Some e \<Longrightarrow>
   runQuery env instance q opts = (Rejected e, instance)"
  by (simp add: runQuery_def Let_def)

lemma runQuery_hook_throws:
  "callVerbose instance (toString env q) = None \<Longrightarrow>
   callOnQuery env opts (toString env q) = Some e \<Longrightarrow>
   runQuery env instance q opts = (Rejected e, instance)"
  by (simp add: runQuery_def Let_def)

lemma runQuery_proceeds:
  "callVerbose instance (toString env q) = None \<Longrightarrow>
   callOnQuery env opts (toString env q) = None \<Longrightarrow>
   runQuery env instance q opts =
     (if isNative instance then runQuery_native env instance q opts
      else runQuery_embedded env instance (toString env q) (getQueryAction (toString env q)) opts)"
  by (simp add: runQuery_def Let_def)

lemma embedded_held:
  "pool_held instance \<Longrightarrow> runQuery_embedded env instance sql action opts = (Pending, instance)"
  by (simp add: runQuery_embedded_def)

lemma embedded_read:
  "\<not> pool_held instance \<Longrightarrow> needResponse opts \<Longrightarrow>
   exec env sql (db instance) = (Inr contents, db') \<Longrightarrow> writeDatabase env db' = None \<Longrightarrow>
   runQuery_embedded env instance sql action opts =
     (Resolved (if str_includes (toLowerCase sql) HAS_TABLE_SUBSTRING
                then JBool (parseResponse contents \<noteq> [])
                else JArr (parseResponse contents)),
      instance\<lparr>pool_held := False, db := db', issued := issued instance @ [sql]\<rparr>)"
  by (simp add: runQuery_embedded_def Let_def)


lemma embedded_exec_throws:
  "\<not> pool_held instance \<Longrightarrow> needResponse opts \<Longrightarrow>
   exec env sql (db instance) = (Inl e, db') \<Longrightarrow>
   runQuery_embedded env instance sql action opts =
     (Rejected e, instance\<lparr>pool_held := True, db := db', issued := issued instance @ [sql]\<rparr>)"
  by (simp add: runQuery_embedded_def Let_def)

lemma embedded_run_throws:
  "\<not> pool_held instance \<Longrightarrow> \<not> needResponse opts \<Longrightarrow>
   run env sql (db instance) = (Some e, db') \<Longrightarrow>
   runQuery_embedded env instance sql action opts =
     (Rejected e, instance\<lparr>pool_held := True, db := db', issued := issued instance @ [sql]\<rparr>)"
  by (simp add: runQuery_embedded_def Let_def)

lemma runQuery_held_never_resolves:
  "\<not> isNative instance \<Longrightarrow> pool_held instance \<Longrightarrow>
   fst (runQuery env instance q opts) \<noteq> Resolved r"
  by (simp add: runQuery_def Let_def embedded_held split: option.splits)

lemma startsWith_iff: "startsWith s p \<longleftrightarrow> (\<exists>b. s = p @ b)"
  by (induction s p rule: startsWith.induct) auto

lemma str_includes_iff: "str_includes s p \<longleftrightarrow> (\<exists>a b. s = a @ p @ b)"
proof (induction s)
  case Nil
  then show ?case by auto
next
  case (Cons c cs)
  show ?case
  proof
    assume "str_includes (c # cs) p"
    then consider "startsWith (c # cs) p" | "str_includes cs p" by auto
    then show "\<exists>a b. c # cs = a @ p @ b"
    proof cases
      case 1
      then obtain b where "c # cs = p @ b" by (auto simp: startsWith_iff)
      then have "c # cs = [] @ p @ b" by simp
      then show ?thesis by blast
    next
      case 2
      then obtain a b where "cs = a @ p @ b" using Cons.IH by auto
      then have "c # cs = (c # a) @ p @ b" by simp
      then show ?thesis by blast
    qed
  next
    assume "\<exists>a b. c # cs = a @ p @ b"
    then obtain a b where ab: "c # cs = a @ p @ b" by blast
    show "str_includes (c # cs) p"
    proof (cases a)
      case Nil
      with ab have "startsWith (c # cs) p" by (auto simp: startsWith_iff)
      then show ?thesis by simp
    next
      case (Cons x a')
      with ab have "cs = a' @ p @ b" by simp
      then have "str_includes cs p" using Cons.IH by blast
      then show ?thesis by simp
    qed
  qed
qed










lemma issued_embedded:
  "\<not> pool_held instance \<Longrightarrow>
   issued (snd (runQuery_embedded env instance sql action opts)) = issued instance @ [sql]"
  by (simp add: runQuery_embedded_def Let_def split: prod.splits sum.splits option.splits)

lemma issued_awaitNative:
  "issued (snd (awaitNative env instance q)) = issued instance @ [toString env q]"
  by (simp add: awaitNative_def Let_def split: prod.splits sum.splits)

lemma issued_native:
  "issued (snd (runQuery_native env instance q opts)) = issued instance @ [toString env q]"
  using issued_awaitNative [of env "instance" q]
  by (auto simp: runQuery_native_def split: prod.splits outcome.splits)

text \<open>
  C2, as the code has it. An error thrown by the logging callback, or a rejection of the
  on-query hook, leaves \<open>runQuery\<close> at once: its promise rejects with that error and
  the instance is as it was, so the query is not executed. When neither fails and the
  query can be started (native mode, or the handle of the pool is free), the statement is
  handed to the engine.
\<close>

theorem runQuery_callback_failure_rejects:
  "(callVerbose instance (toString env query) = Some e \<longrightarrow>
      runQuery env instance query options = (Rejected e, instance)) \<and>
   (callVerbose instance (toString env query) = None \<and>
    callOnQuery env options (toString env query) = Some e \<longrightarrow>
      runQuery env instance query options = (Rejected e, instance)) \<and>
   (callVerbose instance (toString env query) = None \<and>
    callOnQuery env options (toString env query) = None \<and>
    (isNative instance \<or> \<not> pool_held instance) \<longrightarrow>
      issued (snd (runQuery env instance query options)) = issued instance @ [toString env query])"
  by (auto simp: runQuery_verbose_throws runQuery_hook_throws runQuery_proceeds
      issued_native issued_embedded)

theorem runQuery_callback_failure_rejects_witness:
  "callVerbose logging_instance (toString sample_env (HasTable ''one'')) =
     Some (Error ''logger failed'') \<and>
   runQuery sample_env logging_instance (HasTable ''one'') read_options =
     (Rejected (Error ''logger failed''), logging_instance) \<and>
   callVerbose sample_instance (toString hook_env (HasTable ''one'')) = None \<and>
   callOnQuery hook_env hooked_options (toString hook_env (HasTable ''one'')) =
     Some (Error ''hook failed'') \<and>
   runQuery hook_env sample_instance (HasTable ''one'') hooked_options =
     (Rejected (Error ''hook failed''), sample_instance) \<and>
   callOnQuery sample_env read_options (toString sample_env (HasTable ''one'')) = None \<and>
   \<not> pool_held sample_instance \<and>
   issued (snd (runQuery sample_env sample_instance (HasTable ''one'') read_options)) =
     [toString sample_env (HasTable ''one'')]"
proof -
  have h1: "callVerbose logging_instance (toString sample_env (HasTable ''one'')) =
      Some (Error ''logger failed'')"
    by (simp add: sample_defs)
  have h2: "callVerbose sample_instance (toString hook_env (HasTable ''one'')) = None \<and>
      callOnQuery hook_env hooked_options (toString hook_env (HasTable ''one'')) =
        Some (Error ''hook failed'')"
    by (simp add: sample_defs)
  have h3: "callVerbose sample_instance (toString sample_env (HasTable ''one'')) = None \<and>
      callOnQuery sample_env read_options (toString sample_env (HasTable ''one'')) = None \<and>
      \<not> pool_held sample_instance \<and> issued sample_instance = []"
    by (simp add: sample_defs)
  from h1 h2 h3
    runQuery_callback_failure_rejects
      [of logging_instance sample_env "HasTable ''one''" "Error ''logger failed''" read_options]
    runQuery_callback_failure_rejects
      [of sample_instance hook_env "HasTable ''one''" "Error ''hook failed''" hooked_options]
    runQuery_callback_failure_rejects
      [of sample_instance sample_env "HasTable ''one''" "Error ''x''" read_options]
  show ?thesis by simp
qed

text \<open>
  As the spec states it, C2 fails: with a logging callback that throws, \<open>runQuery\<close>
  rejects with the error of the callback and nothing reaches the engine; so it does when
  the on-query hook of the model rejects. Without them the same query resolves.
\<close>

theorem runQuery_callback_failure_counterexample:
  "fst (runQuery sample_env logging_instance (HasTable ''one'') read_options) =
     Rejected (Error ''logger failed'') \<and>
   issued (snd (runQuery sample_env logging_instance (HasTable ''one'') read_options)) = [] \<and>
   fst (runQuery hook_env sample_instance (HasTable ''one'') hooked_options) =
     Rejected (Error ''hook failed'') \<and>
   issued (snd (runQuery hook_env sample_instance (HasTable ''one'') hooked_options)) = [] \<and>
   fst (runQuery sample_env sample_instance (HasTable ''one'') read_options) =
     Resolved (JBool True)"
  by (simp add: runQuery_def runQuery_embedded_def sample_defs Let_def toLowerCase_def
      lower_char_def HAS_TABLE_SUBSTRING_def parseResponse_def)

text \<open>
  C3. The release of the handle is the last statement but one of \<open>runQuery\<close> and is not
  guarded: when \<open>exec\<close> or \<open>run\<close> throws in embedded mode, the promise rejects with the
  handle still acquired, and no later query on the instance resolves. The claim that the
  handle is released on every exit path does not hold of the code.
\<close>

theorem runQuery_throw_keeps_handle:
  "\<not> isNative instance \<and> \<not> pool_held instance \<and>
   callVerbose instance (toString env query) = None \<and>
   callOnQuery env options (toString env query) = None \<and>
   (needResponse options \<and> fst (exec env (toString env query) (db instance)) = Inl e \<or>
    \<not> needResponse options \<and> fst (run env (toString env query) (db instance)) = Some e) \<longrightarrow>
   fst (runQuery env instance query options) = Rejected e \<and>
   pool_held (snd (runQuery env instance query options)) \<and>
   fst (runQuery env (snd (runQuery env instance query options)) query' options') \<noteq> Resolved r"
proof (intro impI)
  let ?sql = "toString env query"
  assume a: "\<not> isNative instance \<and> \<not> pool_held instance \<and>
   callVerbose instance ?sql = None \<and> callOnQuery env options ?sql = None \<and>
   (needResponse options \<and> fst (exec env ?sql (db instance)) = Inl e \<or>
    \<not> needResponse options \<and> fst (run env ?sql (db instance)) = Some e)"
  then have run: "runQuery env instance query options =
      runQuery_embedded env instance ?sql (getQueryAction ?sql) options"
    by (simp add: runQuery_proceeds)
  from a have "\<exists>db'. runQuery_embedded env instance ?sql (getQueryAction ?sql) options =
      (Rejected e, instance\<lparr>pool_held := True, db := db', issued := issued instance @ [?sql]\<rparr>)"
  proof (elim conjE disjE)
    assume "\<not> pool_held instance" "needResponse options" "fst (exec env ?sql (db instance)) = Inl e"
    then show ?thesis
      using embedded_exec_throws [of "instance" options env ?sql e "snd (exec env ?sql (db instance))"]
      by (cases "exec env ?sql (db instance)") auto
  next
    assume "\<not> pool_held instance" "\<not> needResponse options" "fst (run env ?sql (db instance)) = Some e"
    then show ?thesis
      using embedded_run_throws [of "instance" options env ?sql e "snd (run env ?sql (db instance))"]
      by (cases "run env ?sql (db instance)") auto
  qed
  then obtain db' where r: "runQuery env instance query options =
      (Rejected e, instance\<lparr>pool_held := True, db := db', issued := issued instance @ [?sql]\<rparr>)"
    using run by auto
  have "fst (runQuery env (instance\<lparr>pool_held := True, db := db', issued := issued instance @ [?sql]\<rparr>)
      query' options') \<noteq> Resolved r"
    using a by (intro runQuery_held_never_resolves) auto
  with r show "fst (runQuery env instance query options) = Rejected e \<and>
   pool_held (snd (runQuery env instance query options)) \<and>
   fst (runQuery env (snd (runQuery env instance query options)) query' options') \<noteq> Resolved r"
    by simp
qed

theorem runQuery_throw_keeps_handle_witness:
  "\<not> isNative sample_instance \<and> \<not> pool_held sample_instance \<and>
   fst (exec sample_env (toString sample_env (Raw ''selec'')) (db sample_instance)) =
     Inl (Error ''syntax error'') \<and>
   fst (runQuery sample_env sample_instance (Raw ''selec'') read_options) =
     Rejected (Error ''syntax error'') \<and>
   pool_held (snd (runQuery sample_env sample_instance (Raw ''selec'') read_options)) \<and>
   fst (runQuery sample_env (snd (runQuery sample_env sample_instance (Raw ''selec'') read_options))
          (HasTable ''one'') read_options) \<noteq> Resolved (JBool True)"
proof -
  have h: "\<not> isNative sample_instance \<and> \<not> pool_held sample_instance \<and>
      callVerbose sample_instance (toString sample_env (Raw ''selec'')) = None \<and>
      callOnQuery sample_env read_options (toString sample_env (Raw ''selec'')) = None \<and>
      needResponse read_options \<and>
      fst (exec sample_env (toString sample_env (Raw ''selec'')) (db sample_instance)) =
        Inl (Error ''syntax error'')"
    by (simp add: sample_defs)
  from h runQuery_throw_keeps_handle
    [of sample_instance sample_env "Raw ''selec''" read_options "Error ''syntax error''"
        "HasTable ''one''" read_options "JBool True"]
  show ?thesis by simp
qed



text \<open>
  C10. In embedded mode, a query run with \<open>needResponse\<close> whose rendered text, in lower
  case, holds the marker anywhere resolves with a boolean, whether any row came back, in
  place of the rows. The query need not be an existence check.
\<close>

theorem runQuery_marker_collapses:
  "\<not> isNative instance \<and> \<not> pool_held instance \<and>
   callVerbose instance (toString env query) = None \<and>
   callOnQuery env options (toString env query) = None \<and>
   needResponse options \<and>
   exec env (toString env query) (db instance) = (Inr contents, db') \<and>
   writeDatabase env db' = None \<and>
   toLowerCase (toString env query) = before @ HAS_TABLE_SUBSTRING @ after \<longrightarrow>
   fst (runQuery env instance query options) = Resolved (JBool (parseResponse contents \<noteq> []))"
proof (intro impI)
  assume a: "\<not> isNative instance \<and> \<not> pool_held instance \<and>
   callVerbose instance (toString env query) = None \<and>
   callOnQuery env options (toString env query) = None \<and>
   needResponse options \<and>
   exec env (toString env query) (db instance) = (Inr contents, db') \<and>
   writeDatabase env db' = None \<and>
   toLowerCase (toString env query) = before @ HAS_TABLE_SUBSTRING @ after"
  then have "str_includes (toLowerCase (toString env query)) HAS_TABLE_SUBSTRING"
    unfolding str_includes_iff by blast
  with a show "fst (runQuery env instance query options) =
      Resolved (JBool (parseResponse contents \<noteq> []))"
    by (simp add: runQuery_proceeds embedded_read)
qed

theorem runQuery_marker_collapses_witness:
  "toLowerCase (toString sample_env marker_query) =
     ''select name '' @ HAS_TABLE_SUBSTRING @ '' order by name'' \<and>
   exec sample_env (toString sample_env marker_query) (db sample_instance) =
     (Inr (sample_rows [''one'', ''two'']), [''one'', ''two'']) \<and>
   parseResponse (sample_rows [''one'', ''two'']) =
     [JObj [(''type'', JStr ''table''), (''name'', JStr ''one'')],
      JObj [(''type'', JStr ''table''), (''name'', JStr ''two'')]] \<and>
   fst (runQuery sample_env sample_instance marker_query read_options) = Resolved (JBool True)"
proof -
  have h: "\<not> isNative sample_instance \<and> \<not> pool_held sample_instance \<and>
      callVerbose sample_instance (toString sample_env marker_query) = None \<and>
      callOnQuery sample_env read_options (toString sample_env marker_query) = None \<and>
      needResponse read_options \<and>
      exec sample_env (toString sample_env marker_query) (db sample_instance) =
        (Inr (sample_rows [''one'', ''two'']), [''one'', ''two'']) \<and>
      writeDatabase sample_env [''one'', ''two''] = None"
    by (simp add: sample_defs marker_query_def)
  have l: "toLowerCase (toString sample_env marker_query) =
      ''select name '' @ HAS_TABLE_SUBSTRING @ '' order by name''"
    by (simp add: sample_defs marker_query_def toLowerCase_def lower_char_def HAS_TABLE_SUBSTRING_def)
  have p: "parseResponse (sample_rows [''one'', ''two'']) =
      [JObj [(''type'', JStr ''table''), (''name'', JStr ''one'')],
       JObj [(''type'', JStr ''table''), (''name'', JStr ''two'')]]"
    by (simp add: sample_rows_def parseResponse_def parseLine_def assignProperty_def)
  from h l p runQuery_marker_collapses
    [of sample_instance sample_env marker_query read_options "sample_rows [''one'', ''two'']"
        "[''one'', ''two'']" "''select name ''" "'' order by name''"]
  show ?thesis by simp
qed

section \<open>Properties of the registry\<close>

lemma definitions_embedded:
  "definitions (snd (runQuery_embedded env instance sql action opts)) = definitions instance"
  by (simp add: runQuery_embedded_def Let_def split: prod.splits sum.splits option.splits)

lemma definitions_awaitNative:
  "definitions (snd (awaitNative env instance q)) = definitions instance"
  by (simp add: awaitNative_def Let_def split: prod.splits sum.splits)

lemma definitions_native:
  "definitions (snd (runQuery_native env instance q opts)) = definitions instance"
  using definitions_awaitNative [of env "instance" q]
  by (auto simp: runQuery_native_def split: prod.splits outcome.splits)

lemma definitions_runQuery:
  "definitions (snd (runQuery env instance q opts)) = definitions instance"
  by (simp add: runQuery_def Let_def definitions_native definitions_embedded split: option.splits)

lemma definitions_runQuery_D:
  "runQuery env instance q opts = (r, instance') \<Longrightarrow> definitions instance' = definitions instance"
  using definitions_runQuery [of env "instance" q opts] by simp

lemma definitions_awaitNative_D:
  "awaitNative env instance q = (r, instance') \<Longrightarrow> definitions instance' = definitions instance"
  using definitions_awaitNative [of env "instance" q] by simp

lemma model_existing:
  "map_of (definitions this) name = Some existing \<Longrightarrow>
   model env this name schema options = (Resolved existing, this)"
  by (simp add: model_def)

lemma model_registers:
  assumes trig: "\<forall>m s. definitions (createTimestampTrigger env m s) = definitions s"
    and res: "model env this name schema options = (Resolved m, this1)"
  shows "map_of (definitions this1) name = Some m"
proof (cases "map_of (definitions this) name")
  case (Some existing)
  with res show ?thesis by (simp add: model_def)
next
  case None
  show ?thesis
  proof (cases "newModel env name schema options")
    case (Inl e)
    with None res show ?thesis by (simp add: model_def)
  next
    case (Inr m0)
    let ?this1 = "this\<lparr>definitions := AList.update name m0 (definitions this)\<rparr>"
    have upd: "map_of (AList.update name m0 (definitions this)) name = Some m0"
      by (simp add: update_conv')
    show ?thesis
    proof (cases "validate env options")
      case (Inl e)
      with None Inr res show ?thesis by (simp add: model_def)
    next
      case v: (Inr validated)
      from res None Inr v
      have "m = m0 \<and> definitions this1 = definitions ?this1"
        by (auto simp: model_def Let_def trig
            split: if_splits prod.splits outcome.splits
            dest!: definitions_runQuery_D definitions_awaitNative_D)
      with upd show ?thesis by simp
    qed
  qed
qed

text \<open>
  C8. Calling \<open>model\<close> with a name that is defined resolves with the model registered
  under the name and leaves the instance as it was: no statement is issued. In particular
  a second call after a call that resolved gives the same model again, whatever schema
  and options it is given, provided \<open>createTimestampTrigger\<close> leaves the definitions
  alone.
\<close>

theorem model_idempotent:
  "(map_of (definitions this) name = Some existing \<longrightarrow>
      model env this name schema options = (Resolved existing, this) \<and>
      issued (snd (model env this name schema options)) = issued this) \<and>
   ((\<forall>m s. definitions (createTimestampTrigger env m s) = definitions s) \<and>
    model env this name schema options = (Resolved m, this1) \<longrightarrow>
      model env this1 name schema' options' = (Resolved m, this1))"
  using model_registers [of env this name schema options m this1]
  by (simp add: model_existing)

theorem model_idempotent_witness:
  "map_of (definitions sample_instance) ''one'' = Some sample_model \<and>
   model sample_env sample_instance ''one'' JNull JNull = (Resolved sample_model, sample_instance) \<and>
   fst (model sample_env sample_instance ''three'' JNull JNull) =
     Resolved \<lparr>m_name = ''three'', m_schema = JNull, m_options = JNull\<rparr> \<and>
   issued (snd (model sample_env sample_instance ''three'' JNull JNull)) =
     [toString sample_env (HasTable ''three''), ''create table three''] \<and>
   model sample_env (snd (model sample_env sample_instance ''three'' JNull JNull)) ''three''
       (JObj []) JNull =
     (Resolved \<lparr>m_name = ''three'', m_schema = JNull, m_options = JNull\<rparr>,
      snd (model sample_env sample_instance ''three'' JNull JNull))"
proof -
  have h1: "map_of (definitions sample_instance) ''one'' = Some sample_model"
    by (simp add: sample_defs)
  have h2: "\<forall>m s. definitions (createTimestampTrigger sample_env m s) = definitions s"
    by (simp add: sample_defs)
  have f: "fst (model sample_env sample_instance ''three'' JNull JNull) =
      Resolved \<lparr>m_name = ''three'', m_schema = JNull, m_options = JNull\<rparr> \<and>
    issued (snd (model sample_env sample_instance ''three'' JNull JNull)) =
      [toString sample_env (HasTable ''three''), ''create table three'']"
    by (simp add: model_def runQuery_def runQuery_embedded_def sample_defs Let_def
        toLowerCase_def lower_char_def HAS_TABLE_SUBSTRING_def parseResponse_def getQueryAction_def)
  then have h3: "model sample_env sample_instance ''three'' JNull JNull =
      (Resolved \<lparr>m_name = ''three'', m_schema = JNull, m_options = JNull\<rparr>,
       snd (model sample_env sample_instance ''three'' JNull JNull))"
    by (simp add: prod_eq_iff)
  from h1 model_idempotent
    [of sample_instance "''one''" sample_model sample_env JNull JNull sample_model sample_instance JNull JNull]
  have r1: "model sample_env sample_instance ''one'' JNull JNull = (Resolved sample_model, sample_instance)"
    by simp
  from h2 h3 model_idempotent
    [of sample_instance "''three''" sample_model sample_env JNull JNull
        "\<lparr>m_name = ''three'', m_schema = JNull, m_options = JNull\<rparr>"
        "snd (model sample_env sample_instance ''three'' JNull JNull)" "JObj []" JNull]
  have r2: "model sample_env (snd (model sample_env sample_instance ''three'' JNull JNull)) ''three''
       (JObj []) JNull =
     (Resolved \<lparr>m_name = ''three'', m_schema = JNull, m_options = JNull\<rparr>,
      snd (model sample_env sample_instance ''three'' JNull JNull))"
    by simp
  from h1 r1 f r2 show ?thesis by simp
qed

text \<open>
  C9. \<open>dropModel\<close> of a name that is not defined resolves with \<open>false\<close> and leaves the
  instance as it was, so no statement is issued. For a defined name, when the drop
  statement succeeds (in embedded mode: the handle is free, \<open>exec\<close> and \<open>writeDatabase\<close>
  do not throw; in native mode: the driver resolves), it hands the drop statement to the
  engine, removes the definition and resolves with \<open>true\<close>; \<open>hasModel\<close> of the name
  then resolves with \<open>false\<close> without issuing a statement.
\<close>

theorem dropModel_behaviour:
  "(map_of (definitions this) name = None \<longrightarrow> dropModel env this name = (Resolved False, this)) \<and>
   (map_of (definitions this) name = Some m \<and> \<not> isNative this \<and> \<not> pool_held this \<and>
    callVerbose this (toString env (DropTableIfExists name)) = None \<and>
    exec env (toString env (DropTableIfExists name)) (db this) = (Inr contents, db') \<and>
    writeDatabase env db' = None \<and>
    this' = this\<lparr>definitions := AList.delete name (definitions this), pool_held := False,
                 db := db', issued := issued this @ [toString env (DropTableIfExists name)]\<rparr> \<longrightarrow>
      dropModel env this name = (Resolved True, this') \<and>
      map_of (definitions this') name = None \<and>
      hasModel env this' name = (Resolved (JBool False), this')) \<and>
   (map_of (definitions this) name = Some m \<and> isNative this \<and>
    callVerbose this (toString env (DropTableIfExists name)) = None \<and>
    awaitQuery env (DropTableIfExists name) (db this) = (Inr res, db') \<and>
    this' = this\<lparr>definitions := AList.delete name (definitions this),
                 db := db', issued := issued this @ [toString env (DropTableIfExists name)]\<rparr> \<longrightarrow>
      dropModel env this name = (Resolved True, this') \<and>
      map_of (definitions this') name = None \<and>
      hasModel env this' name = (Resolved (JBool False), this'))"
proof -
  have hook: "callOnQuery env \<lparr>needResponse = True, opt_model = None\<rparr> s = None" for s
    by (simp add: callOnQuery_def)
  have undefined_name: "map_of (definitions this) name = None \<longrightarrow>
      dropModel env this name = (Resolved False, this)"
    by (simp add: dropModel_def)
  have embedded: "map_of (definitions this) name = Some m \<and> \<not> isNative this \<and> \<not> pool_held this \<and>
    callVerbose this (toString env (DropTableIfExists name)) = None \<and>
    exec env (toString env (DropTableIfExists name)) (db this) = (Inr contents, db') \<and>
    writeDatabase env db' = None \<and>
    this' = this\<lparr>definitions := AList.delete name (definitions this), pool_held := False,
                 db := db', issued := issued this @ [toString env (DropTableIfExists name)]\<rparr> \<longrightarrow>
      dropModel env this name = (Resolved True, this') \<and>
      map_of (definitions this') name = None \<and>
      hasModel env this' name = (Resolved (JBool False), this')"
    by (intro impI, elim conjE)
      (simp add: dropModel_def hasModel_def runQuery_proceeds hook embedded_read delete_conv')
  have native: "map_of (definitions this) name = Some m \<and> isNative this \<and>
    callVerbose this (toString env (DropTableIfExists name)) = None \<and>
    awaitQuery env (DropTableIfExists name) (db this) = (Inr res, db') \<and>
    this' = this\<lparr>definitions := AList.delete name (definitions this),
                 db := db', issued := issued this @ [toString env (DropTableIfExists name)]\<rparr> \<longrightarrow>
      dropModel env this name = (Resolved True, this') \<and>
      map_of (definitions this') name = None \<and>
      hasModel env this' name = (Resolved (JBool False), this')"
    by (intro impI, elim conjE)
      (simp add: dropModel_def hasModel_def runQuery_proceeds hook runQuery_native_def
        awaitNative_def delete_conv')
  from undefined_name embedded native show ?thesis by (intro conjI)
qed

theorem dropModel_behaviour_witness:
  "map_of (definitions sample_instance) ''nine'' = None \<and>
   dropModel sample_env sample_instance ''nine'' = (Resolved False, sample_instance) \<and>
   map_of (definitions sample_instance) ''one'' = Some sample_model \<and>
   dropModel sample_env sample_instance ''one'' =
     (Resolved True,
      sample_instance\<lparr>definitions := [], db := [''two''], issued := [''drop table if exists one'']\<rparr>) \<and>
   hasModel sample_env
      (sample_instance\<lparr>definitions := [], db := [''two''], issued := [''drop table if exists one'']\<rparr>)
      ''one'' =
     (Resolved (JBool False),
      sample_instance\<lparr>definitions := [], db := [''two''], issued := [''drop table if exists one'']\<rparr>) \<and>
   dropModel sample_env (sample_instance\<lparr>isNative := True\<rparr>) ''one'' =
     (Resolved True,
      sample_instance\<lparr>isNative := True, definitions := [], issued := [''drop table if exists one'']\<rparr>)"
proof -
  have h0: "map_of (definitions sample_instance) ''nine'' = None"
    by (simp add: sample_defs)
  have h1: "map_of (definitions sample_instance) ''one'' = Some sample_model \<and>
      \<not> isNative sample_instance \<and> \<not> pool_held sample_instance \<and>
      callVerbose sample_instance (toString sample_env (DropTableIfExists ''one'')) = None \<and>
      exec sample_env (toString sample_env (DropTableIfExists ''one'')) (db sample_instance) =
        (Inr [], [''two'']) \<and>
      writeDatabase sample_env [''two''] = None \<and>
      sample_instance\<lparr>definitions := [], db := [''two''], issued := [''drop table if exists one'']\<rparr> =
      sample_instance\<lparr>definitions := AList.delete ''one'' (definitions sample_instance),
        pool_held := False, db := [''two''],
        issued := issued sample_instance @ [toString sample_env (DropTableIfExists ''one'')]\<rparr>"
    by (simp add: sample_defs)
  have h2: "map_of (definitions (sample_instance\<lparr>isNative := True\<rparr>)) ''one'' = Some sample_model \<and>
      isNative (sample_instance\<lparr>isNative := True\<rparr>) \<and>
      callVerbose (sample_instance\<lparr>isNative := True\<rparr>)
        (toString sample_env (DropTableIfExists ''one'')) = None \<and>
      awaitQuery sample_env (DropTableIfExists ''one'') (db (sample_instance\<lparr>isNative := True\<rparr>)) =
        (Inr (JNum 0), [''one'', ''two'']) \<and>
      sample_instance\<lparr>isNative := True, definitions := [], issued := [''drop table if exists one'']\<rparr> =
      sample_instance\<lparr>isNative := True\<rparr>
        \<lparr>definitions := AList.delete ''one'' (definitions (sample_instance\<lparr>isNative := True\<rparr>)),
         db := [''one'', ''two''],
         issued := issued (sample_instance\<lparr>isNative := True\<rparr>) @
           [toString sample_env (DropTableIfExists ''one'')]\<rparr>"
    by (simp add: sample_defs)
  from h0 dropModel_behaviour
    [of sample_instance "''nine''" sample_env sample_model "[]" "[]" sample_instance JNull]
  have r0: "dropModel sample_env sample_instance ''nine'' = (Resolved False, sample_instance)"
    by simp
  from h1 dropModel_behaviour
    [of sample_instance "''one''" sample_env sample_model "[]" "[''two'']"
        "sample_instance\<lparr>definitions := [], db := [''two''], issued := [''drop table if exists one'']\<rparr>"
        JNull]
  have r1: "dropModel sample_env sample_instance ''one'' =
     (Resolved True,
      sample_instance\<lparr>definitions := [], db := [''two''], issued := [''drop table if exists one'']\<rparr>) \<and>
   hasModel sample_env
      (sample_instance\<lparr>definitions := [], db := [''two''], issued := [''drop table if exists one'']\<rparr>)
      ''one'' =
     (Resolved (JBool False),
      sample_instance\<lparr>definitions := [], db := [''two''], issued := [''drop table if exists one'']\<rparr>)"
    by blast
  from h2 dropModel_behaviour
    [of "sample_instance\<lparr>isNative := True\<rparr>" "''one''" sample_env sample_model "[]" "[''one'', ''two'']"
        "sample_instance\<lparr>isNative := True, definitions := [], issued := [''drop table if exists one'']\<rparr>"
        "JNum 0"]
  have r2: "dropModel sample_env (sample_instance\<lparr>isNative := True\<rparr>) ''one'' =
     (Resolved True,
      sample_instance\<lparr>isNative := True, definitions := [], issued := [''drop table if exists one'']\<rparr>)"
    by blast
  from h0 h1 r0 r1 r2 show ?thesis by blast
qed

end
